theory Spec2Isabelle
  imports Main
begin

section \<open>The base class of the quantum algorithms\<close>

text \<open>
  The module \<^verbatim>\<open>qiskit_quantum_knn/qknn/quantum_algorithm.py\<close> defines one
  abstract class, \<^verbatim>\<open>QuantumAlgorithm\<close>. An instance has a single attribute,
  \<^verbatim>\<open>_quantum_instance\<close>, and the class offers \<^verbatim>\<open>run\<close>, the property
  \<^verbatim>\<open>quantum_instance\<close> (getter and setter), \<^verbatim>\<open>set_backend\<close> and the property
  \<^verbatim>\<open>backend\<close> (getter and setter). The computation itself, \<^verbatim>\<open>_run\<close>, is
  abstract: here it is a parameter of \<open>run\<close>.

  Python objects have an identity and are mutated in place, so the model has an explicit
  store: a list of the \<^verbatim>\<open>QuantumInstance\<close> objects allocated so far, an object's
  reference being its index. Every method takes the world (the store and the attribute of
  \<^verbatim>\<open>self\<close>) and returns the world it leaves, also when it raises.
\<close>

subsection \<open>Errors\<close>

text \<open>
  \<^verbatim>\<open>ValueError\<close> carries its message. \<^verbatim>\<open>AttributeError\<close> is what Python raises
  when an attribute is read from \<^verbatim>\<open>None\<close>. \<open>Raised\<close> stands for whatever else the
  subclass's \<^verbatim>\<open>_run\<close> raises.
\<close>

datatype 'e error = ValueError string | AttributeError | Raised 'e

abbreviation MissingExecutionContext :: "'e error" where
  "MissingExecutionContext \<equiv>
     ValueError ''Quantum device or backend is needed since you are running quantum algorithm.''"

subsection \<open>The collaborators: backends and quantum instances\<close>

text \<open>
  Modelled from the spec: the class \<^verbatim>\<open>QuantumInstance\<close> is imported from qiskit and
  is not part of this module. The spec describes it as a handle "bundling a compute
  backend with run-time configuration", consumed through three operations:
  "construct-from-backend, apply-configuration-options, and read-backend". So a quantum
  instance is a record of its backend and of its configuration, a mapping from option
  names to values. A backend (\<^verbatim>\<open>Backend\<close>, imported from qiskit as well) is an opaque
  handle: the type variable \<open>'b\<close>. Keyword arguments are a Python dictionary with
  strings as keys.
\<close>

type_synonym 'v kwargs = "string \<rightharpoonup> 'v"

record ('b, 'v) QuantumInstance =
  backend :: 'b
  config :: "'v kwargs"

type_synonym ref = nat

text \<open>
  An object's reference is its index in the store. A reference that Python code holds
  always denotes an object, so the references a caller passes are below the length of the
  store.

  What the argument \<^verbatim>\<open>Optional[Union[QuantumInstance, Backend]]\<close> can be, apart from
  \<^verbatim>\<open>None\<close>: a backend, for which \<^verbatim>\<open>isinstance(x, Backend)\<close> holds, or a
  reference to a quantum instance. The attribute \<^verbatim>\<open>_quantum_instance\<close> is untyped in
  Python, so it has the same type in the model.
\<close>

datatype 'b obj = Backend 'b | QInstance ref

record ('b, 'v) world =
  heap :: "('b, 'v) QuantumInstance list"
  self_quantum_instance :: "'b obj option"

text \<open>
  Modelled from the spec: \<^verbatim>\<open>QuantumInstance(backend)\<close>, "construct-from-backend".
  The new object holds the backend and the default options, which the spec leaves open:
  they are the parameter \<open>dflt\<close>. The object is allocated at the end of the store.
\<close>

definition QuantumInstance_new ::
  "('b \<Rightarrow> 'v kwargs) \<Rightarrow> 'b \<Rightarrow> ('b, 'v) world \<Rightarrow> ref \<times> ('b, 'v) world" where
  "QuantumInstance_new dflt b w =
     (length (heap w), w\<lparr>heap := heap w @ [\<lparr>backend = b, config = dflt b\<rparr>]\<rparr>)"

text \<open>
  Modelled from the spec: \<^verbatim>\<open>set_config(**kwargs)\<close>, "apply-configuration-options".
  The object at \<open>r\<close> is updated in place: each named option takes the value given, the
  other options and the backend stay.
\<close>

definition set_config :: "'v kwargs \<Rightarrow> ref \<Rightarrow> ('b, 'v) world \<Rightarrow> ('b, 'v) world" where
  "set_config kw r w =
     w\<lparr>heap := (heap w)[r := (heap w ! r)\<lparr>config := config (heap w ! r) ++ kw\<rparr>]\<rparr>"

subsection \<open>The class\<close>

text \<open>The getter of the property \<^verbatim>\<open>quantum_instance\<close> (lines 58 to 61).\<close>

definition quantum_instance_getter :: "('b, 'v) world \<Rightarrow> 'b obj option" where
  "quantum_instance_getter w = self_quantum_instance w"

text \<open>
  The setter of the property \<^verbatim>\<open>quantum_instance\<close> (lines 63 to 68): a backend is
  wrapped first, anything else is stored as it is.
\<close>

definition quantum_instance_setter ::
  "('b \<Rightarrow> 'v kwargs) \<Rightarrow> 'b obj \<Rightarrow> ('b, 'v) world \<Rightarrow> ('b, 'v) world" where
  "quantum_instance_setter dflt x w =
     (case x of
        Backend b \<Rightarrow>
          (case QuantumInstance_new dflt b w of
             (r, w1) \<Rightarrow> w1\<lparr>self_quantum_instance := Some (QInstance r)\<rparr>)
      | QInstance r \<Rightarrow> w\<lparr>self_quantum_instance := Some (QInstance r)\<rparr>)"

text \<open>
  \<^verbatim>\<open>set_backend\<close> (lines 70 to 73). Line 72 makes a quantum instance and assigns it
  through the setter; line 73 reads the property again and calls \<^verbatim>\<open>set_config\<close>
  on what it finds. Only a quantum instance has that method.
\<close>

definition set_backend ::
  "('b \<Rightarrow> 'v kwargs) \<Rightarrow> 'b \<Rightarrow> 'v kwargs \<Rightarrow> ('b, 'v) world \<Rightarrow> ('e error + unit) \<times> ('b, 'v) world" where
  "set_backend dflt b kw w =
     (case QuantumInstance_new dflt b w of
        (r, w1) \<Rightarrow>
          (let w2 = quantum_instance_setter dflt (QInstance r) w1 in
           case quantum_instance_getter w2 of
             Some (QInstance r') \<Rightarrow> (Inr (), set_config kw r' w2)
           | Some (Backend _) \<Rightarrow> (Inl AttributeError, w2)
           | None \<Rightarrow> (Inl AttributeError, w2)))"

text \<open>
  The getter of the property \<^verbatim>\<open>backend\<close> (lines 75 to 78):
  \<^verbatim>\<open>self.quantum_instance.backend\<close>. Reading \<^verbatim>\<open>.backend\<close> from \<^verbatim>\<open>None\<close>
  raises \<^verbatim>\<open>AttributeError\<close>.
\<close>

definition backend_getter :: "('b, 'v) world \<Rightarrow> 'e error + 'b" where
  "backend_getter w =
     (case quantum_instance_getter w of
        Some (QInstance r) \<Rightarrow> Inr (backend (heap w ! r))
      | Some (Backend _) \<Rightarrow> Inl AttributeError
      | None \<Rightarrow> Inl AttributeError)"

text \<open>
  The setter of the property \<^verbatim>\<open>backend\<close> (lines 80 to 83): \<^verbatim>\<open>set_backend\<close>
  with no keyword argument.
\<close>

definition backend_setter ::
  "('b \<Rightarrow> 'v kwargs) \<Rightarrow> 'b \<Rightarrow> ('b, 'v) world \<Rightarrow> ('e error + unit) \<times> ('b, 'v) world" where
  "backend_setter dflt b w = set_backend dflt b Map.empty w"

text \<open>
  The constructor (lines 23 to 28), on the store \<open>h\<close> of the objects that exist when the
  instance is made. The test \<^verbatim>\<open>if quantum_instance:\<close> is Python's truth test:
  \<^verbatim>\<open>None\<close> is false, a backend or a quantum instance is true.
\<close>

definition init ::
  "('b \<Rightarrow> 'v kwargs) \<Rightarrow> 'b obj option \<Rightarrow> ('b, 'v) QuantumInstance list \<Rightarrow> ('b, 'v) world" where
  "init dflt quantum_instance h =
     (let w = \<lparr>heap = h, self_quantum_instance = None\<rparr> in
      case quantum_instance of
        None \<Rightarrow> w
      | Some x \<Rightarrow> quantum_instance_setter dflt x w)"

text \<open>
  \<^verbatim>\<open>run\<close> (lines 30 to 52). The parameter \<open>compute\<close> is the subclass's \<^verbatim>\<open>_run\<close>:
  it reads the world, may change it, and returns a result or raises.
\<close>

definition run ::
  "('b \<Rightarrow> 'v kwargs) \<Rightarrow> (('b, 'v) world \<Rightarrow> ('e error + 'r) \<times> ('b, 'v) world) \<Rightarrow>
     'b obj option \<Rightarrow> 'v kwargs \<Rightarrow> ('b, 'v) world \<Rightarrow> ('e error + 'r) \<times> ('b, 'v) world" where
  "run dflt compute quantum_instance kw w =
     (if quantum_instance = None \<and> quantum_instance_getter w = None
      then (Inl MissingExecutionContext, w)
      else
        (case quantum_instance of
           Some (Backend b) \<Rightarrow>
             (case set_backend dflt b kw w of
                (Inl e, w') \<Rightarrow> (Inl e, w')
              | (Inr _, w') \<Rightarrow> compute w')
         | Some (QInstance r) \<Rightarrow> compute (quantum_instance_setter dflt (QInstance r) w)
         | None \<Rightarrow> compute w))"

subsection \<open>Sequences of calls\<close>

text \<open>
  The calls that change an instance after its construction: an assignment to the property
  \<^verbatim>\<open>quantum_instance\<close>, an assignment to the property \<^verbatim>\<open>backend\<close>, a call of
  \<^verbatim>\<open>set_backend\<close> and a call of \<^verbatim>\<open>run\<close>. \<open>exec\<close> makes one call and returns
  the world it leaves, whether the call returned or raised; \<open>exec_all\<close> makes the calls
  of a list, first to last.
\<close>

datatype ('b, 'v) operation =
    Assign_quantum_instance "'b obj"
  | Assign_backend 'b
  | Call_set_backend 'b "'v kwargs"
  | Call_run "'b obj option" "'v kwargs"

definition exec ::
  "('b \<Rightarrow> 'v kwargs) \<Rightarrow> (('b, 'v) world \<Rightarrow> ('e error + 'r) \<times> ('b, 'v) world) \<Rightarrow>
     ('b, 'v) operation \<Rightarrow> ('b, 'v) world \<Rightarrow> ('b, 'v) world" where
  "exec dflt compute op w =
     (case op of
        Assign_quantum_instance x \<Rightarrow> quantum_instance_setter dflt x w
      | Assign_backend b \<Rightarrow> snd (backend_setter dflt b w :: ('e error + unit) \<times> ('b, 'v) world)
      | Call_set_backend b kw \<Rightarrow> snd (set_backend dflt b kw w :: ('e error + unit) \<times> ('b, 'v) world)
      | Call_run a kw \<Rightarrow> snd (run dflt compute a kw w))"

fun exec_all ::
  "('b \<Rightarrow> 'v kwargs) \<Rightarrow> (('b, 'v) world \<Rightarrow> ('e error + 'r) \<times> ('b, 'v) world) \<Rightarrow>
     ('b, 'v) operation list \<Rightarrow> ('b, 'v) world \<Rightarrow> ('b, 'v) world" where
  "exec_all dflt compute [] w = w"
| "exec_all dflt compute (op # ops) w = exec_all dflt compute ops (exec dflt compute op w)"


text \<open>The attribute holds \<^verbatim>\<open>None\<close> or a quantum instance, never a bare backend.\<close>

definition no_raw_backend :: "('b, 'v) world \<Rightarrow> bool" where
  "no_raw_backend w =
     (case self_quantum_instance w of
        Some (Backend b) \<Rightarrow> False
      | Some (QInstance r) \<Rightarrow> True
      | None \<Rightarrow> True)"

text \<open>The value that the stored quantum instance has for the option \<open>k\<close>, if any.\<close>

definition stored_option :: "('b, 'v) world \<Rightarrow> string \<Rightarrow> 'v option" where
  "stored_option w k =
     (case self_quantum_instance w of
        Some (QInstance r) \<Rightarrow> config (heap w ! r) k
      | Some (Backend b) \<Rightarrow> None
      | None \<Rightarrow> None)"

subsection \<open>Concrete worlds\<close>

text \<open>
  Backends, option values and results are numbers here. The default options are 1024
  shots. \<open>ex_world\<close> is an instance that holds the quantum instance at reference 0, on
  backend 0 with 5 shots; \<open>ex_empty\<close> is the same store with an instance that holds no
  quantum instance. \<open>ex_compute\<close> returns the number of objects in the store;
  \<open>ex_compute_strict\<close> does the same, but raises and empties the store when the
  instance holds no quantum instance.
\<close>

definition ex_dflt :: "nat \<Rightarrow> nat kwargs" where
  "ex_dflt b = [''shots'' \<mapsto> 1024]"

definition ex_world :: "(nat, nat) world" where
  "ex_world = \<lparr>heap = [\<lparr>backend = 0, config = [''shots'' \<mapsto> 5]\<rparr>],
               self_quantum_instance = Some (QInstance 0)\<rparr>"

definition ex_empty :: "(nat, nat) world" where
  "ex_empty = \<lparr>heap = [\<lparr>backend = 0, config = [''shots'' \<mapsto> 5]\<rparr>],
               self_quantum_instance = None\<rparr>"

definition ex_compute :: "(nat, nat) world \<Rightarrow> (unit error + nat) \<times> (nat, nat) world" where
  "ex_compute w = (Inr (length (heap w)), w)"

definition ex_compute_strict :: "(nat, nat) world \<Rightarrow> (unit error + nat) \<times> (nat, nat) world" where
  "ex_compute_strict w =
     (case self_quantum_instance w of
        None \<Rightarrow> (Inl (Raised ()), w\<lparr>heap := []\<rparr>)
      | Some x \<Rightarrow> (Inr (length (heap w)), w))"

section \<open>What each method does to the world\<close>

lemma quantum_instance_setter_Backend:
  "quantum_instance_setter dflt (Backend b) w =
     w\<lparr>heap := heap w @ [\<lparr>backend = b, config = dflt b\<rparr>],
       self_quantum_instance := Some (QInstance (length (heap w)))\<rparr>"
  by (simp add: quantum_instance_setter_def QuantumInstance_new_def)

lemma quantum_instance_setter_QInstance:
  "quantum_instance_setter dflt (QInstance r) w = w\<lparr>self_quantum_instance := Some (QInstance r)\<rparr>"
  by (simp add: quantum_instance_setter_def)

text \<open>
  \<^verbatim>\<open>set_backend\<close> never raises: line 73 finds the quantum instance that line 72
  has just stored.
\<close>

lemma set_backend_eq:
  "set_backend dflt b kw w =
     (Inr (), w\<lparr>heap := heap w @ [\<lparr>backend = b, config = dflt b ++ kw\<rparr>],
               self_quantum_instance := Some (QInstance (length (heap w)))\<rparr>)"
  by (simp add: set_backend_def QuantumInstance_new_def quantum_instance_setter_def
      quantum_instance_getter_def set_config_def)

lemma backend_getter_stored:
  "self_quantum_instance w = Some (QInstance r) \<Longrightarrow> backend_getter w = Inr (backend (heap w ! r))"
  by (simp add: backend_getter_def quantum_instance_getter_def)


section \<open>The missing-context check of run\<close>

text \<open>
  Claim C1. When the instance holds no quantum instance and \<^verbatim>\<open>run\<close> is called with
  no quantum instance either, the call raises the \<^verbatim>\<open>ValueError\<close> of line 44,
  whatever the subclass's computation is, and it leaves the world as it found it: the
  attribute is still \<^verbatim>\<open>None\<close> and no object was made or changed.
\<close>

theorem run_missing_context:
  "self_quantum_instance w = None \<Longrightarrow>
     run dflt compute None kw w = (Inl MissingExecutionContext, w)"
  by (simp add: run_def quantum_instance_getter_def)

theorem run_missing_context_witness:
  "self_quantum_instance ex_empty = None \<and>
   run ex_dflt ex_compute_strict None [''shots'' \<mapsto> 5] ex_empty
     = (Inl MissingExecutionContext, ex_empty)"
proof -
  have absent: "self_quantum_instance ex_empty = None"
    by (simp add: ex_empty_def)
  show ?thesis
    using absent run_missing_context [OF absent, of ex_dflt ex_compute_strict "[''shots'' \<mapsto> 5]"]
    by simp
qed

text \<open>
  Claim C2. \<^verbatim>\<open>run\<close> never hands to the subclass's computation a world in which the
  instance holds no quantum instance: two computations that agree on every world in which
  the attribute is not \<^verbatim>\<open>None\<close> give the same \<^verbatim>\<open>run\<close>, on every argument and
  from every world.
\<close>

theorem run_delegates_with_context:
  "(\<forall>w'. self_quantum_instance w' \<noteq> None \<longrightarrow> compute w' = compute' w') \<Longrightarrow>
     run dflt compute a kw w = run dflt compute' a kw w"
  by (cases a; cases "self_quantum_instance w")
     (auto simp: run_def quantum_instance_getter_def set_backend_eq quantum_instance_setter_QInstance
           split: obj.splits)

theorem run_delegates_with_context_witness:
  "ex_compute_strict ex_empty \<noteq> ex_compute ex_empty \<and>
   run ex_dflt ex_compute_strict None Map.empty ex_empty = run ex_dflt ex_compute None Map.empty ex_empty \<and>
   run ex_dflt ex_compute_strict (Some (Backend 3)) Map.empty ex_empty
     = run ex_dflt ex_compute (Some (Backend 3)) Map.empty ex_empty"
proof -
  have agree: "\<forall>w'. self_quantum_instance w' \<noteq> None \<longrightarrow> ex_compute_strict w' = ex_compute w'"
    by (auto simp: ex_compute_strict_def ex_compute_def)
  have differ: "ex_compute_strict ex_empty \<noteq> ex_compute ex_empty"
    by (simp add: ex_compute_strict_def ex_compute_def ex_empty_def)
  show ?thesis
    using differ run_delegates_with_context [OF agree, of ex_dflt None Map.empty ex_empty]
      run_delegates_with_context [OF agree, of ex_dflt "Some (Backend 3)" Map.empty ex_empty]
    by simp
qed

section \<open>What run stores\<close>

text \<open>
  Claim C3. Called with a quantum instance, \<^verbatim>\<open>run\<close> stores the reference it was
  given, the same object and not a copy, makes and changes no object, and then runs the
  subclass's computation. The keyword arguments do not occur in the result: they are
  ignored.
\<close>

theorem run_stores_supplied_context:
  "run dflt compute (Some (QInstance r)) kw w =
     compute (w\<lparr>self_quantum_instance := Some (QInstance r)\<rparr>)"
  by (simp add: run_def quantum_instance_setter_QInstance)

theorem run_stores_supplied_context_witness:
  "run ex_dflt ex_compute (Some (QInstance 0)) [''shots'' \<mapsto> 9] ex_empty = (Inr 1, ex_world)"
  using run_stores_supplied_context [of ex_dflt ex_compute 0 "[''shots'' \<mapsto> 9]" ex_empty]
  by (simp add: ex_compute_def ex_empty_def ex_world_def)



text \<open>
  Claim C7. An instance constructed with a backend or a quantum instance holds a quantum
  instance, and \<^verbatim>\<open>run\<close> with no argument is then the subclass's computation, run in
  the world the constructor left: it returns what that computation returns and raises only
  what that computation raises.
\<close>

theorem run_after_init_with_context:
  "self_quantum_instance (init dflt (Some x) h) \<noteq> None \<and>
   run dflt compute None kw (init dflt (Some x) h) = compute (init dflt (Some x) h)"
  by (cases x)
     (simp_all add: init_def run_def quantum_instance_getter_def quantum_instance_setter_Backend
        quantum_instance_setter_QInstance)

theorem run_after_init_with_context_witness:
  "run ex_dflt ex_compute None Map.empty (init ex_dflt (Some (QInstance 0)) (heap ex_world))
     = (Inr 1, ex_world) \<and>
   run ex_dflt ex_compute None Map.empty (init ex_dflt (Some (Backend 6)) [])
     = (Inr 1, \<lparr>heap = [\<lparr>backend = 6, config = [''shots'' \<mapsto> 1024]\<rparr>],
                self_quantum_instance = Some (QInstance 0)\<rparr>)"
  using run_after_init_with_context [of ex_dflt "QInstance 0" "heap ex_world" ex_compute Map.empty]
    run_after_init_with_context [of ex_dflt "Backend 6" "[]" ex_compute Map.empty]
  by (simp add: init_def ex_world_def ex_compute_def ex_dflt_def quantum_instance_setter_def
      QuantumInstance_new_def)

section \<open>The setters\<close>

text \<open>
  Claim C4, as the class has it. An assignment to the property \<^verbatim>\<open>backend\<close> never
  raises. It makes a new quantum instance on the new backend with the default options and
  stores it, whether or not the instance held a quantum instance before. The objects that
  existed keep their place and their content, so the quantum instance held before is not
  changed, and none of its options reaches the new one.
\<close>

theorem backend_setter_fresh_default:
  "backend_setter dflt b w =
     (Inr (), w\<lparr>heap := heap w @ [\<lparr>backend = b, config = dflt b\<rparr>],
               self_quantum_instance := Some (QInstance (length (heap w)))\<rparr>)"
  by (simp add: backend_setter_def set_backend_eq)

theorem backend_setter_fresh_default_witness:
  "(backend_setter ex_dflt 1 ex_world :: (unit error + unit) \<times> (nat, nat) world) =
     (Inr (), \<lparr>heap = [\<lparr>backend = 0, config = [''shots'' \<mapsto> 5]\<rparr>,
                       \<lparr>backend = 1, config = [''shots'' \<mapsto> 1024]\<rparr>],
               self_quantum_instance = Some (QInstance 1)\<rparr>)"
  using backend_setter_fresh_default [of ex_dflt 1 ex_world]
  by (simp add: ex_world_def ex_dflt_def)

text \<open>
  Claim C4, as the spec has it, fails: the instance \<open>ex_world\<close> holds a quantum instance
  with 5 shots, and after the assignment of backend 1 to the property \<^verbatim>\<open>backend\<close>
  the quantum instance it holds has the default 1024 shots.
\<close>

theorem backend_setter_keeps_config_counterexample:
  "stored_option ex_world ''shots'' = Some 5 \<and>
   stored_option (snd (backend_setter ex_dflt 1 ex_world :: (unit error + unit) \<times> (nat, nat) world)) ''shots''
     = Some 1024 \<and>
   stored_option (snd (backend_setter ex_dflt 1 ex_world :: (unit error + unit) \<times> (nat, nat) world)) ''shots''
     \<noteq> stored_option ex_world ''shots''"
  by (simp add: stored_option_def backend_setter_def set_backend_eq ex_world_def ex_dflt_def)

text \<open>
  Claim C6. An assignment of a backend \<open>b\<close> to the property \<^verbatim>\<open>quantum_instance\<close>
  makes a new quantum instance on \<open>b\<close> with the default options and stores it; the
  property \<^verbatim>\<open>backend\<close> then reads \<open>b\<close>.
\<close>

theorem quantum_instance_setter_wraps_backend:
  "quantum_instance_setter dflt (Backend b) w =
     w\<lparr>heap := heap w @ [\<lparr>backend = b, config = dflt b\<rparr>],
       self_quantum_instance := Some (QInstance (length (heap w)))\<rparr> \<and>
   backend_getter (quantum_instance_setter dflt (Backend b) w) = Inr b"
  by (simp add: quantum_instance_setter_Backend backend_getter_stored)

theorem quantum_instance_setter_wraps_backend_witness:
  "quantum_instance_setter ex_dflt (Backend 2) ex_empty =
     \<lparr>heap = [\<lparr>backend = 0, config = [''shots'' \<mapsto> 5]\<rparr>,
              \<lparr>backend = 2, config = [''shots'' \<mapsto> 1024]\<rparr>],
      self_quantum_instance = Some (QInstance 1)\<rparr> \<and>
   backend_getter (quantum_instance_setter ex_dflt (Backend 2) ex_empty) = (Inr 2 :: unit error + nat)"
  using quantum_instance_setter_wraps_backend [of ex_dflt 2 ex_empty]
  by (simp add: ex_empty_def ex_dflt_def)

section \<open>The backend getter\<close>

text \<open>
  Claim C10. On an instance that holds no quantum instance, reading the property
  \<^verbatim>\<open>backend\<close> raises \<^verbatim>\<open>AttributeError\<close>: there is no default backend.
\<close>

theorem backend_getter_absent:
  "self_quantum_instance w = None \<Longrightarrow> backend_getter w = Inl AttributeError"
  by (simp add: backend_getter_def quantum_instance_getter_def)

theorem backend_getter_absent_witness:
  "self_quantum_instance ex_empty = None \<and>
   backend_getter ex_empty = (Inl AttributeError :: unit error + nat) \<and>
   backend_getter (init ex_dflt None []) = (Inl AttributeError :: unit error + nat)"
proof -
  have e: "self_quantum_instance ex_empty = None"
    by (simp add: ex_empty_def)
  have i: "self_quantum_instance (init ex_dflt None []) = None"
    by (simp add: init_def)
  show ?thesis
    using e backend_getter_absent [OF e] backend_getter_absent [OF i] by simp
qed




section \<open>The attribute never holds a bare backend\<close>

lemma no_raw_backend_stored:
  "self_quantum_instance w = Some (QInstance r) \<Longrightarrow> no_raw_backend w"
  by (simp add: no_raw_backend_def)

lemma no_raw_backend_setter: "no_raw_backend (quantum_instance_setter dflt x w)"
  by (cases x)
     (simp_all add: no_raw_backend_def quantum_instance_setter_Backend quantum_instance_setter_QInstance)

lemma no_raw_backend_set_backend: "no_raw_backend (snd (set_backend dflt b kw w))"
  by (simp add: no_raw_backend_def set_backend_eq)

lemma no_raw_backend_init: "no_raw_backend (init dflt a h)"
  by (cases a) (simp_all add: init_def no_raw_backend_setter, simp add: no_raw_backend_def)

lemma no_raw_backend_run:
  assumes "\<forall>w. no_raw_backend w \<longrightarrow> no_raw_backend (snd (compute w))" and "no_raw_backend w"
  shows "no_raw_backend (snd (run dflt compute a kw w))"
proof (cases a)
  case None
  with assms show ?thesis by (simp add: run_def)
next
  case (Some x)
  with assms(1) show ?thesis
    by (cases x)
       (simp_all add: run_def set_backend_eq quantum_instance_setter_QInstance no_raw_backend_stored)
qed

lemma no_raw_backend_exec:
  assumes "\<forall>w. no_raw_backend w \<longrightarrow> no_raw_backend (snd (compute w))" and "no_raw_backend w"
  shows "no_raw_backend (exec dflt compute op w)"
  using assms
  by (cases op)
     (simp_all add: exec_def no_raw_backend_setter no_raw_backend_set_backend backend_setter_def
        no_raw_backend_run)

lemma no_raw_backend_exec_all:
  assumes "\<forall>w. no_raw_backend w \<longrightarrow> no_raw_backend (snd (compute w))" and "no_raw_backend w"
  shows "no_raw_backend (exec_all dflt compute ops w)"
  using assms(2) by (induction ops arbitrary: w) (simp_all add: no_raw_backend_exec [OF assms(1)])

text \<open>
  Claim C9. In every world that the constructor and any sequence of calls (assignments to
  either property, \<^verbatim>\<open>set_backend\<close>, \<^verbatim>\<open>run\<close>) lead to, the attribute holds
  \<^verbatim>\<open>None\<close> or a quantum instance, never a bare backend, as long as the subclass's
  computation does not store one itself.
\<close>

theorem stored_context_never_raw_backend:
  assumes "\<forall>w. no_raw_backend w \<longrightarrow> no_raw_backend (snd (compute w))"
  shows "no_raw_backend (exec_all dflt compute ops (init dflt a h))"
  using assms by (simp add: no_raw_backend_exec_all no_raw_backend_init)

theorem stored_context_never_raw_backend_witness:
  "no_raw_backend (exec_all ex_dflt ex_compute
      [Assign_quantum_instance (Backend 1), Call_run None Map.empty, Assign_backend 2,
       Call_run (Some (Backend 3)) [''optA'' \<mapsto> 1]] (init ex_dflt (Some (Backend 5)) [])) \<and>
   self_quantum_instance (exec_all ex_dflt ex_compute
      [Assign_quantum_instance (Backend 1), Call_run None Map.empty, Assign_backend 2,
       Call_run (Some (Backend 3)) [''optA'' \<mapsto> 1]] (init ex_dflt (Some (Backend 5)) []))
     = Some (QInstance 3)"
proof (rule conjI)
  have keeps: "\<forall>w. no_raw_backend w \<longrightarrow> no_raw_backend (snd (ex_compute w))"
    by (simp add: ex_compute_def)
  show "no_raw_backend (exec_all ex_dflt ex_compute
      [Assign_quantum_instance (Backend 1), Call_run None Map.empty, Assign_backend 2,
       Call_run (Some (Backend 3)) [''optA'' \<mapsto> 1]] (init ex_dflt (Some (Backend 5)) []))"
    by (rule stored_context_never_raw_backend [OF keeps])
next
  show "self_quantum_instance (exec_all ex_dflt ex_compute
      [Assign_quantum_instance (Backend 1), Call_run None Map.empty, Assign_backend 2,
       Call_run (Some (Backend 3)) [''optA'' \<mapsto> 1]] (init ex_dflt (Some (Backend 5)) []))
     = Some (QInstance 3)"
    by (simp add: exec_def init_def run_def backend_setter_def set_backend_eq ex_compute_def
        quantum_instance_setter_Backend quantum_instance_getter_def)
qed


end
